theory Spec2Isabelle
  imports Complex_Main "HOL-Library.Char_ord" "HOL-Library.List_Lexorder"
begin

section \<open>Python values used by the memory pipeline\<close>

text \<open>
  The development embeds three modules of the repository: the interaction chunker and the
  chunk evaluator of \<^verbatim>\<open>ipa/ipa_evaluator.py\<close>, and the observer, the reflector and the
  controller of \<^verbatim>\<open>observational_memory/\<close>.

  Conventions of the embedding:
  \<^item> Python \<^verbatim>\<open>int\<close> is \<^typ>\<open>int\<close>, \<^verbatim>\<open>len\<close> is \<^const>\<open>length\<close> (a \<^typ>\<open>nat\<close>);
  \<^item> Python \<^verbatim>\<open>float\<close> is \<^typ>\<open>real\<close>: the arithmetic is exact, rounding is not modelled;
  \<^item> \<^verbatim>\<open>str\<close> is \<^typ>\<open>string\<close>; \<^verbatim>\<open>lower\<close> and \<^verbatim>\<open>split\<close> are modelled on ASCII;
  \<^item> a raised exception is a value \<open>Inl e\<close> of a sum type, a loop that may run for ever is a
    \<^theory_text>\<open>partial_function\<close> into \<open>option\<close>;
  \<^item> \<^verbatim>\<open>datetime.now()\<close> is a parameter \<open>now\<close> of the functions that read the clock: one
    reading for all the reads of a call.
\<close>

datatype py_error = ZeroDivisionError | NameError

record datetime =
  year :: nat
  month :: nat
  day :: nat
  hour :: nat
  minute :: nat
  second :: nat

text \<open>
  A message is a \<^verbatim>\<open>Dict\<close> with the keys \<^verbatim>\<open>role\<close>, \<^verbatim>\<open>content\<close> and \<^verbatim>\<open>timestamp\<close>. The code
  reads every key with \<^verbatim>\<open>.get\<close>, so a key may be absent (\<open>None\<close>); a key that is present
  holds a string, a string and a datetime.
\<close>

record message =
  msg_role :: "string option"
  msg_content :: "string option"
  msg_timestamp :: "datetime option"

subsection \<open>Strings\<close>

text \<open>\<^verbatim>\<open>sep.join(xs)\<close>\<close>

fun join :: "string \<Rightarrow> string list \<Rightarrow> string" where
  "join sep [] = []"
| "join sep [x] = x"
| "join sep (x # y # ys) = x @ sep @ join sep (y # ys)"

text \<open>\<^verbatim>\<open>s.lower()\<close>, on the ASCII letters.\<close>

definition lower_char :: "char \<Rightarrow> char" where
  "lower_char c =
     (case map_of (zip ''ABCDEFGHIJKLMNOPQRSTUVWXYZ'' ''abcdefghijklmnopqrstuvwxyz'') c of
        None \<Rightarrow> c
      | Some d \<Rightarrow> d)"

definition lower :: "string \<Rightarrow> string" where
  "lower s = map lower_char s"

text \<open>\<^verbatim>\<open>p in t\<close> for two strings: \<open>p\<close> occurs in \<open>t\<close> as a contiguous substring.\<close>

fun starts_with :: "string \<Rightarrow> string \<Rightarrow> bool" where
  "starts_with [] t = True"
| "starts_with (p # ps) [] = False"
| "starts_with (p # ps) (c # cs) = (p = c \<and> starts_with ps cs)"

fun py_in :: "string \<Rightarrow> string \<Rightarrow> bool" where
  "py_in p [] = (p = [])"
| "py_in p (c # cs) = (starts_with p (c # cs) \<or> py_in p cs)"

text \<open>\<^verbatim>\<open>s.split()\<close>: the maximal runs of non-whitespace characters.\<close>

definition is_space :: "char \<Rightarrow> bool" where
  "is_space c = (c \<in> set [CHR '' '', CHR 0x09, CHR 0x0A, CHR 0x0B, CHR 0x0C, CHR 0x0D,
                           CHR 0x1C, CHR 0x1D, CHR 0x1E, CHR 0x1F])"

fun split_acc :: "string \<Rightarrow> string \<Rightarrow> string list" where
  "split_acc w [] = (if w = [] then [] else [w])"
| "split_acc w (c # cs) =
     (if is_space c then (if w = [] then split_acc [] cs else w # split_acc [] cs)
      else split_acc (w @ [c]) cs)"

definition split :: "string \<Rightarrow> string list" where
  "split s = split_acc [] s"

text \<open>\<^verbatim>\<open>str(n)\<close> for a natural number, as an f-string prints \<^verbatim>\<open>len(xs)\<close>.\<close>

definition digit_char :: "nat \<Rightarrow> char" where
  "digit_char d = ''0123456789'' ! d"

function str_nat :: "nat \<Rightarrow> string" where
  "str_nat n = (if n < 10 then [digit_char n] else str_nat (n div 10) @ [digit_char (n mod 10)])"
  by pat_completeness auto
termination
  by (relation "measure id") auto

declare str_nat.simps [simp del]

text \<open>
  \<^verbatim>\<open>xs[a:b]\<close> with Python's rules: a negative index counts from the end, and both indices are
  clipped to the list.
\<close>

definition py_slice :: "'a list \<Rightarrow> int \<Rightarrow> int \<Rightarrow> 'a list" where
  "py_slice xs a b =
     (let n = int (length xs);
          a' = (if a < 0 then max (a + n) 0 else min a n);
          b' = (if b < 0 then max (b + n) 0 else min b n)
      in take (nat (b' - a')) (drop (nat a') xs))"

text \<open>
  \<^verbatim>\<open>max(xs, key=f)\<close> on a non-empty sequence \<open>x # xs\<close>: the first element whose key is
  maximal (a later element replaces the best one only when its key is strictly greater).
\<close>

fun py_max_by :: "('a \<Rightarrow> nat) \<Rightarrow> 'a \<Rightarrow> 'a list \<Rightarrow> 'a" where
  "py_max_by key best [] = best"
| "py_max_by key best (x # xs) = py_max_by key (if key best < key x then x else best) xs"

section \<open>Interaction chunker\<close>

record InteractionChunk =
  chunk_id :: string
  start_idx :: int
  end_idx :: int
  messages :: "message list"
  semantic_type :: string
  importance :: real
  timestamp :: datetime

record InteractionChunker =
  min_chunk_size :: int
  max_chunk_size :: int
  semantic_patterns :: "(string \<times> string list) list"

text \<open>
  The dict of patterns is an association list in declaration order, its keys distinct as
  the keys of a dict are: \<^verbatim>\<open>max\<close> over a dict walks the keys in insertion order.
\<close>

definition default_semantic_patterns :: "(string \<times> string list) list" where
  "default_semantic_patterns =
     [(''question'', [''?'', ''how'', ''what'', ''why'', ''can you'', ''help'']),
      (''explanation'', [''because'', ''since'', ''the reason'', ''as a result'']),
      (''correction'', [''no'', ''actually'', ''that's wrong'', ''not exactly'']),
      (''task'', [''do this'', ''create'', ''write'', ''build'', ''implement''])]"

definition InteractionChunker_init ::
  "int \<Rightarrow> int \<Rightarrow> (string \<times> string list) list option \<Rightarrow> InteractionChunker" where
  "InteractionChunker_init min_size max_size patterns =
     \<lparr>min_chunk_size = min_size, max_chunk_size = max_size,
      semantic_patterns = (case patterns of None \<Rightarrow> default_semantic_patterns | Some p \<Rightarrow> p)\<rparr>"

text \<open>\<^verbatim>\<open>str(m.get("content", ""))\<close>\<close>

definition content_str :: "message \<Rightarrow> string" where
  "content_str m = (case msg_content m of None \<Rightarrow> [] | Some s \<Rightarrow> s)"

text \<open>\<^verbatim>\<open>sum(1 for pattern in patterns if pattern in text)\<close>\<close>

definition pattern_score :: "string \<Rightarrow> string list \<Rightarrow> nat" where
  "pattern_score text patterns = length (filter (\<lambda>pattern. py_in pattern text) patterns)"

definition classify_semantic_type :: "InteractionChunker \<Rightarrow> message list \<Rightarrow> string" where
  "classify_semantic_type c msgs =
     (if msgs = [] then ''task''
      else
        (let text = lower (join '' '' (map content_str msgs));
             type_scores = map (\<lambda>(stype, patterns). (stype, pattern_score text patterns))
                               (semantic_patterns c)
         in case type_scores of
              [] \<Rightarrow> ''task''
            | s # ss \<Rightarrow> fst (py_max_by snd s ss)))"

text \<open>
  The \<^verbatim>\<open>for j in range(...)\<close> loop of \<^verbatim>\<open>_determine_chunk_size\<close>, over the indices that are
  left; \<open>sz\<close> is the variable \<^verbatim>\<open>size\<close>. The assignment to \<^verbatim>\<open>size\<close> comes before the test
  that guards the \<^verbatim>\<open>break\<close>.
\<close>

fun scan_boundary ::
  "InteractionChunker \<Rightarrow> message list \<Rightarrow> int \<Rightarrow> string \<Rightarrow> int list \<Rightarrow> int \<Rightarrow> int" where
  "scan_boundary c msgs start current_type [] sz = sz"
| "scan_boundary c msgs start current_type (j # js) sz =
     (let next_type = classify_semantic_type c (py_slice msgs j (j + 1)) in
      if next_type \<noteq> current_type then
        (let sz' = j - start in
         if sz' \<ge> min_chunk_size c then sz'
         else scan_boundary c msgs start current_type js sz')
      else scan_boundary c msgs start current_type js sz)"

definition determine_chunk_size :: "InteractionChunker \<Rightarrow> message list \<Rightarrow> int \<Rightarrow> int" where
  "determine_chunk_size c msgs start =
     (let remaining = int (length msgs) - start;
          sz = min (max_chunk_size c) (max (min_chunk_size c) remaining)
      in if start + sz < int (length msgs) then
           (let current_type = classify_semantic_type c (py_slice msgs start (start + 1)) in
            scan_boundary c msgs start current_type
              [start + 1 .. min (start + sz) (int (length msgs)) - 1] sz)
         else sz)"

definition calculate_importance :: "int \<Rightarrow> int \<Rightarrow> py_error + real" where
  "calculate_importance idx tot =
     (if tot = 0 then Inl ZeroDivisionError
      else (let recency = real_of_int (tot - idx) / real_of_int tot
            in Inr (0.5 + (recency * 0.5))))"

text \<open>
  The \<^verbatim>\<open>while i < len(messages)\<close> loop of \<^verbatim>\<open>chunk\<close>, with the loop variables \<open>i\<close> and
  \<open>chunks\<close>. Nothing bounds the number of iterations when the chunk size is not positive, so
  the loop is a partial function: \<open>None\<close> is a run that does not return.
\<close>

partial_function (option) chunk_loop ::
  "InteractionChunker \<Rightarrow> datetime \<Rightarrow> message list \<Rightarrow> string \<Rightarrow> int \<Rightarrow> InteractionChunk list
     \<Rightarrow> (py_error + InteractionChunk list) option" where
  "chunk_loop c now msgs thread_id i chunks =
     (if i < int (length msgs) then
        (let chunk_size = determine_chunk_size c msgs i;
             chunk_messages = py_slice msgs i (i + chunk_size);
             stype = classify_semantic_type c chunk_messages
         in case calculate_importance i (int (length msgs)) of
              Inl e \<Rightarrow> Some (Inl e)
            | Inr imp \<Rightarrow>
                chunk_loop c now msgs thread_id (i + chunk_size)
                  (chunks @ [\<lparr>InteractionChunk.chunk_id = thread_id @ ''_chunk_'' @ str_nat (length chunks),
                              start_idx = i,
                              end_idx = i + chunk_size,
                              messages = chunk_messages,
                              semantic_type = stype,
                              importance = imp,
                              InteractionChunk.timestamp = now\<rparr>]))
      else Some (Inr chunks))"

declare chunk_loop.simps [code]

definition chunk ::
  "InteractionChunker \<Rightarrow> datetime \<Rightarrow> message list \<Rightarrow> string
     \<Rightarrow> (py_error + InteractionChunk list) option" where
  "chunk c now msgs thread_id = chunk_loop c now msgs thread_id 0 []"

section \<open>Observational memory\<close>

subsection \<open>Data\<close>

text \<open>
  Modelled from the spec: \<^verbatim>\<open>observational_memory/types.py\<close> is not among the source files.
  The priority has the three levels RED, YELLOW and GREEN; an observation is built by the
  source with a timestamp, a priority and a content; the configuration holds the two
  thresholds; a record holds the observations, the current task and the suggested response.
\<close>

datatype PriorityLevel = RED | YELLOW | GREEN

record Observation =
  timestamp :: datetime
  priority :: PriorityLevel
  content :: string

record ObservationConfig =
  observation_threshold :: int
  reflection_threshold :: int

record ObservationalMemoryRecord =
  observations :: "Observation list"
  current_task :: "string option"
  suggested_response :: "string option"

text \<open>
  Modelled from the spec: the value of a priority level is its symbol (the comments of the
  observer give the three emoji), written here as UTF-8 bytes.
\<close>

fun priority_value :: "PriorityLevel \<Rightarrow> string" where
  "priority_value RED = [CHR 0xF0, CHR 0x9F, CHR 0x94, CHR 0xB4]"
| "priority_value YELLOW = [CHR 0xF0, CHR 0x9F, CHR 0x9F, CHR 0xA1]"
| "priority_value GREEN = [CHR 0xF0, CHR 0x9F, CHR 0x9F, CHR 0xA2]"

subsection \<open>Observer: the extraction without the language model\<close>

text \<open>
  The loop body of \<^verbatim>\<open>_simple_extraction\<close> for one message: the observations it appends.
\<close>

definition extract_message :: "datetime \<Rightarrow> message \<Rightarrow> Observation list" where
  "extract_message now msg =
     (if msg_role msg = Some ''user'' then
        (let text = (case msg_content msg of None \<Rightarrow> [] | Some s \<Rightarrow> s);
             ts = (case msg_timestamp msg of None \<Rightarrow> now | Some t \<Rightarrow> t)
         in if py_in ''kids'' (lower text) \<or> py_in ''children'' (lower text) then
              [\<lparr>timestamp = ts, priority = RED,
                content = ''User mentioned family (children)''\<rparr>]
            else if py_in ''work'' (lower text) \<or> py_in ''job'' (lower text) then
              [\<lparr>timestamp = ts, priority = YELLOW,
                content = ''User discussed work situation''\<rparr>]
            else [])
      else [])"

fun simple_extraction :: "datetime \<Rightarrow> message list \<Rightarrow> Observation list" where
  "simple_extraction now [] = []"
| "simple_extraction now (msg # rest) = extract_message now msg @ simple_extraction now rest"

definition extract_observations ::
  "datetime \<Rightarrow> message list \<Rightarrow> string \<Rightarrow> Observation list \<times> string \<times> string" where
  "extract_observations now msgs existing_observations =
     (simple_extraction now msgs, [], [])"

subsection \<open>Reflector: the condensation without the language model\<close>

text \<open>
  The summary takes the timestamp of \<^verbatim>\<open>observations[0]\<close>; the other branch of that
  conditional expression reads \<^verbatim>\<open>datetime\<close>, a name the module does not import.
\<close>

definition simple_condensation :: "Observation list \<Rightarrow> py_error + Observation list" where
  "simple_condensation obs =
     (let condensed = filter (\<lambda>ob. priority ob \<in> set [RED, YELLOW]) obs in
      if condensed \<noteq> [] then
        (case (case obs of [] \<Rightarrow> Inl NameError | ob # _ \<Rightarrow> Inr (Observation.timestamp ob)) of
           Inl e \<Rightarrow> Inl e
         | Inr ts \<Rightarrow>
             Inr (condensed @
                  [\<lparr>timestamp = ts, priority = RED,
                    content = ''Memory consolidated: '' @ str_nat (length condensed) @
                              '' key observations preserved''\<rparr>]))
      else Inr condensed)"

definition reflect :: "Observation list \<Rightarrow> py_error + Observation list" where
  "reflect obs = simple_condensation obs"

subsection \<open>Controller\<close>

text \<open>
  The controller object. Its token counter (\<^verbatim>\<open>token_counter.py\<close>, not among the source
  files) is the parameter \<open>count_observations\<close>. No method of the class assigns an attribute
  of \<^verbatim>\<open>self\<close>: the methods below return the object unchanged where the state matters.
\<close>

record ObservationalMemory =
  config :: ObservationConfig
  count_observations :: "Observation list \<Rightarrow> int"

definition get_observation_record ::
  "ObservationalMemory \<Rightarrow> string \<Rightarrow> ObservationalMemoryRecord option" where
  "get_observation_record om thread_id = None"

definition zero_pad :: "nat \<Rightarrow> string \<Rightarrow> string" where
  "zero_pad w s = replicate (w - length s) CHR ''0'' @ s"

text \<open>\<^verbatim>\<open>obs.timestamp.date().isoformat()\<close> and \<^verbatim>\<open>obs.timestamp.strftime("%H:%M")\<close>\<close>

definition date_isoformat :: "datetime \<Rightarrow> string" where
  "date_isoformat t =
     zero_pad 4 (str_nat (year t)) @ ''-'' @ zero_pad 2 (str_nat (month t)) @ ''-'' @
     zero_pad 2 (str_nat (day t))"

definition strftime_HM :: "datetime \<Rightarrow> string" where
  "strftime_HM t = zero_pad 2 (str_nat (hour t)) @ '':'' @ zero_pad 2 (str_nat (minute t))"

text \<open>The dict \<^verbatim>\<open>grouped\<close>, in insertion order.\<close>

fun group_add ::
  "string \<Rightarrow> Observation \<Rightarrow> (string \<times> Observation list) list
     \<Rightarrow> (string \<times> Observation list) list" where
  "group_add k ob [] = [(k, [ob])]"
| "group_add k ob ((k', obs) # g) =
     (if k = k' then (k', obs @ [ob]) # g else (k', obs) # group_add k ob g)"

definition format_observations :: "Observation list \<Rightarrow> string" where
  "format_observations obs =
     (if obs = [] then []
      else
        (let grouped = foldl (\<lambda>g ob. group_add (date_isoformat (Observation.timestamp ob)) ob g)
                             [] obs;
             lines = concat (map (\<lambda>date_key.
                        (''Date: '' @ date_key) #
                        map (\<lambda>ob. ''* '' @ priority_value (priority ob) @ '' ('' @
                                   strftime_HM (Observation.timestamp ob) @ '') '' @ content ob)
                            (case map_of grouped date_key of None \<Rightarrow> [] | Some g \<Rightarrow> g))
                      (sort (map fst grouped)))
         in join [CHR 0x0A] lines))"

text \<open>\<^verbatim>\<open>new or old\<close> for a string result and an optional old value.\<close>

definition py_or :: "string \<Rightarrow> string option \<Rightarrow> string option" where
  "py_or new old = (if new \<noteq> [] then Some new else old)"

definition process_messages ::
  "ObservationalMemory \<Rightarrow> datetime \<Rightarrow> string \<Rightarrow> message list
     \<Rightarrow> (py_error + ObservationalMemoryRecord) \<times> ObservationalMemory" where
  "process_messages om now thread_id msgs =
     (let rec0 = (case get_observation_record om thread_id of
                    None \<Rightarrow> \<lparr>observations = [], current_task = None,
                              suggested_response = None\<rparr>
                  | Some r \<Rightarrow> r);
          existing_obs_text = format_observations (observations rec0);
          (new_observations, task, suggested) = extract_observations now msgs existing_obs_text;
          combined = observations rec0 @ new_observations;
          observation_count = count_observations om combined
      in (case (if observation_count > reflection_threshold (config om)
                then reflect combined else Inr combined) of
            Inl e \<Rightarrow> Inl e
          | Inr combined' \<Rightarrow>
              Inr (rec0\<lparr>observations := combined',
                        current_task := py_or task (current_task rec0),
                        suggested_response := py_or suggested (suggested_response rec0)\<rparr>),
          om))"

text \<open>
  A run of \<^verbatim>\<open>process_messages\<close> calls, each with its clock reading, thread id and messages:
  the object after the last call.
\<close>

fun after_calls ::
  "ObservationalMemory \<Rightarrow> (datetime \<times> string \<times> message list) list \<Rightarrow> ObservationalMemory" where
  "after_calls om [] = om"
| "after_calls om ((now, thread_id, msgs) # calls) =
     after_calls (snd (process_messages om now thread_id msgs)) calls"

definition get_context :: "ObservationalMemory \<Rightarrow> string \<Rightarrow> string" where
  "get_context om thread_id =
     (case get_observation_record om thread_id of
        None \<Rightarrow> ''No observations yet.''
      | Some r \<Rightarrow>
          (let context = format_observations (observations r);
               context1 = (case suggested_response r of
                             None \<Rightarrow> context
                           | Some s \<Rightarrow>
                               if s \<noteq> [] then
                                 context @ [CHR 0x0A, CHR 0x0A] @ ''<Suggested Response>'' @
                                 [CHR 0x0A] @ s @ [CHR 0x0A]
                               else context)
           in (case current_task r of
                 None \<Rightarrow> context1
               | Some t \<Rightarrow>
                   if t \<noteq> [] then
                     context1 @ [CHR 0x0A, CHR 0x0A] @ ''<Current Task>'' @ [CHR 0x0A] @ t @
                     [CHR 0x0A]
                   else context1)))"

text \<open>The values of the dict that \<^verbatim>\<open>get_stats\<close> returns; the dict is an association list.\<close>

datatype stat_value = IntV int | BoolV bool | NoneV

definition get_stats :: "ObservationalMemory \<Rightarrow> string \<Rightarrow> (string \<times> stat_value) list" where
  "get_stats om thread_id =
     (case get_observation_record om thread_id of
        None \<Rightarrow> [(''total_observations'', IntV 0)]
      | Some r \<Rightarrow>
          [(''total_observations'', IntV (int (length (observations r)))),
           (''last_observed_at'', NoneV),
           (''has_current_task'',
            BoolV (case current_task r of None \<Rightarrow> False | Some t \<Rightarrow> t \<noteq> []))])"

text \<open>
  With a record, \<^verbatim>\<open>force_reflection\<close> runs the reflector and then reads \<^verbatim>\<open>recorded\<close>, a
  name that is not bound: a \<^verbatim>\<open>NameError\<close>.
\<close>

definition force_reflection :: "ObservationalMemory \<Rightarrow> string \<Rightarrow> py_error + string" where
  "force_reflection om thread_id =
     (case get_observation_record om thread_id of
        None \<Rightarrow> Inr ''No observations to reflect.''
      | Some r \<Rightarrow>
          (case reflect (observations r) of
             Inl e \<Rightarrow> Inl e
           | Inr reflected \<Rightarrow> Inl NameError))"

section \<open>Chunk evaluator\<close>

record ChunkEvaluationResult =
  chunk_id :: string
  credit_assigned :: real
  reconstruction_quality :: real
  temporal_relevance :: real
  overall_score :: real

text \<open>
  The evaluator holds its chunker and, optionally, a memory. The evaluator only calls
  \<^verbatim>\<open>get_context\<close> on the memory, so the memory is represented by that method;
  \<open>Some (get_context om)\<close> is a controller of this repository.
\<close>

record IPAEvaluator =
  chunker :: InteractionChunker
  paom :: "(string \<Rightarrow> string) option"

text \<open>The local \<^verbatim>\<open>chunk_text\<close>: the contents of the chunk's messages, joined by spaces.\<close>

definition chunk_text :: "InteractionChunk \<Rightarrow> string" where
  "chunk_text ch = join '' '' (map content_str (messages ch))"

definition measure_reconstruction_quality ::
  "IPAEvaluator \<Rightarrow> InteractionChunk \<Rightarrow> string \<Rightarrow> real" where
  "measure_reconstruction_quality ev ch thread_id =
     (case paom ev of
        None \<Rightarrow> 0.85 + (importance ch * 0.1)
      | Some paom_get_context \<Rightarrow>
          (let paom_context = paom_get_context thread_id
           in if py_in (chunk_text ch) paom_context then 1.0
              else
                (let chunk_words = set (split (lower (chunk_text ch)));
                     context_words = set (split (lower paom_context));
                     overlap = real (card (chunk_words \<inter> context_words)) /
                               real (max (card chunk_words) 1)
                 in overlap * 0.9)))"






section \<open>The invariant of the chunk loop\<close>

text \<open>
  \<open>tiles c msgs i chunks\<close>: the chunks are what the loop of \<^verbatim>\<open>chunk\<close> appends from the
  index \<open>i\<close> on. Each chunk starts where the one before it ends, starts inside the message
  list, is not empty and not longer than the maximal size, holds the slice of its range and
  the importance of its start index; a chunk that reaches the end of the list is the last
  one, and ends at the length of the list or, when fewer than \<^verbatim>\<open>min_chunk_size\<close> messages
  were left, at its start plus \<^verbatim>\<open>min_chunk_size\<close>.
\<close>

fun tiles :: "InteractionChunker \<Rightarrow> message list \<Rightarrow> int \<Rightarrow> InteractionChunk list \<Rightarrow> bool" where
  "tiles c msgs i [] = (int (length msgs) \<le> i)"
| "tiles c msgs i (ch # rest) =
     (start_idx ch = i \<and> 0 \<le> i \<and> i < int (length msgs) \<and> i < end_idx ch
      \<and> end_idx ch \<le> i + max_chunk_size c
      \<and> (end_idx ch < int (length msgs)
           \<or> end_idx ch = max (int (length msgs)) (i + min_chunk_size c))
      \<and> messages ch = py_slice msgs i (end_idx ch)
      \<and> importance ch =
          0.5 + real_of_int (int (length msgs) - i) / real_of_int (int (length msgs)) * 0.5
      \<and> tiles c msgs (end_idx ch) rest)"

section \<open>Example inputs\<close>

text \<open>
  Concrete inputs for the examples below: a clock reading, a user message without a
  timestamp, a controller with the thresholds of the repository's documentation (30000 and
  40000) whose token counter counts the observations, and an evaluator with the default
  chunker and that controller attached.
\<close>

definition example_now :: datetime where
  "example_now = \<lparr>year = 2026, month = 3, day = 1, hour = 0, minute = 0, second = 0\<rparr>"

definition user_message :: "string \<Rightarrow> message" where
  "user_message s = \<lparr>msg_role = Some ''user'', msg_content = Some s, msg_timestamp = None\<rparr>"

definition example_memory :: ObservationalMemory where
  "example_memory =
     \<lparr>config = \<lparr>observation_threshold = 30000, reflection_threshold = 40000\<rparr>,
      count_observations = int \<circ> length\<rparr>"

definition example_evaluator :: IPAEvaluator where
  "example_evaluator =
     \<lparr>chunker = InteractionChunker_init 3 10 None, paom = Some (get_context example_memory)\<rparr>"

section \<open>Facts about the string functions\<close>

lemma starts_with_iff: "starts_with p t \<longleftrightarrow> (\<exists>b. t = p @ b)"
  by (induction p t rule: starts_with.induct) auto

lemma py_in_iff: "py_in p t \<longleftrightarrow> (\<exists>a b. t = a @ p @ b)"
proof (induction t)
  case Nil
  show ?case by auto
next
  case (Cons c cs)
  show ?case
  proof
    assume "py_in p (c # cs)"
    then consider "starts_with p (c # cs)" | "py_in p cs" by auto
    then show "\<exists>a b. c # cs = a @ p @ b"
    proof cases
      case 1
      then obtain b where "c # cs = p @ b" using starts_with_iff by blast
      then have "c # cs = [] @ p @ b" by simp
      then show ?thesis by blast
    next
      case 2
      then obtain a b where "cs = a @ p @ b" using Cons.IH by blast
      then have "c # cs = (c # a) @ p @ b" by simp
      then show ?thesis by blast
    qed
  next
    assume "\<exists>a b. c # cs = a @ p @ b"
    then obtain a b where ab: "c # cs = a @ p @ b" by blast
    show "py_in p (c # cs)"
    proof (cases a)
      case Nil
      with ab have "starts_with p (c # cs)" using starts_with_iff by auto
      then show ?thesis by simp
    next
      case (Cons a0 a')
      with ab have "cs = a' @ p @ b" by simp
      then have "py_in p cs" using Cons.IH by blast
      then show ?thesis by simp
    qed
  qed
qed

lemma py_in_trans: "py_in p q \<Longrightarrow> py_in q t \<Longrightarrow> py_in p t"
proof -
  assume "py_in p q" "py_in q t"
  then obtain a b a' b' where "q = a @ p @ b" "t = a' @ q @ b'"
    unfolding py_in_iff by blast
  then have "t = (a' @ a) @ p @ (b @ b')" by simp
  then show ?thesis unfolding py_in_iff by blast
qed

lemma py_in_lower: "py_in p t \<Longrightarrow> py_in (lower p) (lower t)"
  unfolding py_in_iff lower_def by (metis map_append)

lemma py_in_empty: "py_in [] t"
  unfolding py_in_iff by (intro exI [of _ "[]"] exI [of _ t]) simp

lemma lower_my_kids: "lower ''my kids'' = ''my kids''"
  by (simp add: lower_def lower_char_def)

lemma kids_in_my_kids: "py_in ''kids'' ''my kids''"
  by simp

lemma my_kids_family: "py_in ''my kids'' s \<Longrightarrow> py_in ''kids'' (lower s)"
  using py_in_lower [of "''my kids''" s] py_in_trans [OF kids_in_my_kids]
  by (simp only: lower_my_kids)

lemma simple_extraction_append:
  "simple_extraction now (xs @ ys) = simple_extraction now xs @ simple_extraction now ys"
  by (induction xs) auto

lemma length_extract_message: "length (extract_message now msg) \<le> 1"
  by (simp add: extract_message_def Let_def)

section \<open>Facts about the classification\<close>

lemma py_max_by_first:
  "\<exists>pre post. best # xs = pre @ py_max_by key best xs # post
     \<and> (\<forall>y \<in> set pre. key y < key (py_max_by key best xs))
     \<and> (\<forall>y \<in> set post. key y \<le> key (py_max_by key best xs))"
proof (induction xs arbitrary: best)
  case Nil
  have "[best] = [] @ py_max_by key best [] # [] \<and> (\<forall>y \<in> set []. key y < key (py_max_by key best []))
      \<and> (\<forall>y \<in> set []. key y \<le> key (py_max_by key best []))" by simp
  then show ?case by (intro exI)
next
  case (Cons x xs)
  show ?case
  proof (cases "key best < key x")
    case True
    define r where "r = py_max_by key x xs"
    have step: "py_max_by key best (x # xs) = r" using True by (simp add: r_def)
    from Cons.IH [of x] obtain pre post where
      d: "x # xs = pre @ r # post" and
      lo: "\<forall>y \<in> set pre. key y < key r" and
      hi: "\<forall>y \<in> set post. key y \<le> key r" unfolding r_def by blast
    have "x \<in> set (pre @ r # post)" using d by (metis list.set_intros(1))
    then have "x \<in> set pre \<or> x = r \<or> x \<in> set post" by auto
    then have "key x \<le> key r" using lo hi by (auto simp: less_imp_le)
    with True have "key best < key r" by simp
    with lo have lo': "\<forall>y \<in> set (best # pre). key y < key r" by simp
    from d have d': "best # x # xs = (best # pre) @ r # post" by simp
    from d' lo' hi show ?thesis unfolding step by (intro exI conjI)
  next
    case False
    define r where "r = py_max_by key best xs"
    have step: "py_max_by key best (x # xs) = r" using False by (simp add: r_def)
    from Cons.IH [of best] obtain pre post where
      d: "best # xs = pre @ r # post" and
      lo: "\<forall>y \<in> set pre. key y < key r" and
      hi: "\<forall>y \<in> set post. key y \<le> key r" unfolding r_def by blast
    show ?thesis
    proof (cases pre)
      case Nil
      with d have b: "r = best" and p: "post = xs" by simp_all
      have d': "best # x # xs = [] @ r # (x # xs)" using b by simp
      have hi': "\<forall>y \<in> set (x # xs). key y \<le> key r"
        using hi p b False by auto
      have lo': "\<forall>y \<in> set []. key y < key r" by simp
      from d' lo' hi' show ?thesis unfolding step by (intro exI conjI)
    next
      case (Cons p ps)
      with d have pb: "p = best" and rest: "xs = ps @ r # post" by simp_all
      from lo Cons pb have "key best < key r" by simp
      with False have "key x < key r" by simp
      with lo Cons pb have lo': "\<forall>y \<in> set (best # x # ps). key y < key r" by simp
      from rest have d': "best # x # xs = (best # x # ps) @ r # post" by simp
      from d' lo' hi show ?thesis unfolding step by (intro exI conjI)
    qed
  qed
qed


lemma classify_nonempty:
  assumes "msgs \<noteq> []" and "semantic_patterns c = d # ds"
  shows "classify_semantic_type c msgs =
     fst (py_max_by snd
       (fst d, pattern_score (lower (join '' '' (map content_str msgs))) (snd d))
       (map (\<lambda>p. (fst p, pattern_score (lower (join '' '' (map content_str msgs))) (snd p)))
            ds))"
  using assms by (simp add: classify_semantic_type_def Let_def case_prod_unfold)

lemma classify_first_maximal:
  assumes "msgs \<noteq> []" and "semantic_patterns c \<noteq> []"
  shows "\<exists>pre pats post.
      semantic_patterns c = pre @ (classify_semantic_type c msgs, pats) # post
    \<and> (\<forall>p \<in> set pre. pattern_score (lower (join '' '' (map content_str msgs))) (snd p)
                        < pattern_score (lower (join '' '' (map content_str msgs))) pats)
    \<and> (\<forall>p \<in> set post. pattern_score (lower (join '' '' (map content_str msgs))) (snd p)
                        \<le> pattern_score (lower (join '' '' (map content_str msgs))) pats)"
proof -
  define score where "score = pattern_score (lower (join '' '' (map content_str msgs)))"
  define f where "f = (\<lambda>p :: string \<times> string list. (fst p, score (snd p)))"
  from assms(2) obtain d ds where D: "semantic_patterns c = d # ds"
    by (cases "semantic_patterns c") auto
  define r where "r = py_max_by snd (f d) (map f ds)"
  have cl: "classify_semantic_type c msgs = fst r"
    using classify_nonempty [OF assms(1) D] by (simp add: r_def f_def score_def)
  from py_max_by_first [of "f d" "map f ds" snd] obtain pre' post' where
    d: "f d # map f ds = pre' @ r # post'" and
    lo: "\<forall>y \<in> set pre'. snd y < snd r" and
    hi: "\<forall>y \<in> set post'. snd y \<le> snd r" unfolding r_def by blast
  from d have m: "map f (d # ds) = pre' @ r # post'" by simp
  from m [unfolded map_eq_append_conv] obtain pre vs where
    dd0: "d # ds = pre @ vs" and p1': "pre' = map f pre" and p0': "r # post' = map f vs"
    by (elim exE conjE)
  have p1: "map f pre = pre'" using p1' by (rule sym)
  have p0: "map f vs = r # post'" using p0' by (rule sym)
  from p0 [unfolded map_eq_Cons_conv] obtain x post where
    vs: "vs = x # post" and p2: "f x = r" and p3: "map f post = post'"
    by (elim exE conjE)
  have dd: "d # ds = pre @ x # post" using dd0 vs by simp
  have "r = (fst x, score (snd x))"
    using p2 [symmetric] by (simp only: f_def)
  then have fx: "fst r = fst x" and sx: "snd r = score (snd x)"
    by simp_all
  have x: "x = (classify_semantic_type c msgs, snd x)"
    unfolding cl fx by simp
  have a: "semantic_patterns c = pre @ (classify_semantic_type c msgs, snd x) # post"
    using D dd x by simp
  have b: "\<forall>p \<in> set pre. score (snd p) < score (snd x)"
  proof
    fix p assume "p \<in> set pre"
    then have "f p \<in> set pre'" using p1 by auto
    then have "snd (f p) < snd r" using lo by blast
    then show "score (snd p) < score (snd x)" unfolding sx by (simp add: f_def)
  qed
  have e: "\<forall>p \<in> set post. score (snd p) \<le> score (snd x)"
  proof
    fix p assume "p \<in> set post"
    then have "f p \<in> set post'" using p3 by auto
    then have "snd (f p) \<le> snd r" using hi by blast
    then show "score (snd p) \<le> score (snd x)" unfolding sx by (simp add: f_def)
  qed
  from a b e show ?thesis unfolding score_def by (intro exI conjI)
qed

lemma classify_default_no_match:
  assumes "msgs \<noteq> []" and "semantic_patterns c = default_semantic_patterns"
    and "\<forall>p \<in> set default_semantic_patterns.
           pattern_score (lower (join '' '' (map content_str msgs))) (snd p) = 0"
  shows "classify_semantic_type c msgs = ''question''"
proof -
  define score where "score = pattern_score (lower (join '' '' (map content_str msgs)))"
  have ne: "semantic_patterns c \<noteq> []"
    using assms(2) by (simp add: default_semantic_patterns_def)
  from classify_first_maximal [OF assms(1) ne] obtain pre pats post where
    d: "semantic_patterns c = pre @ (classify_semantic_type c msgs, pats) # post" and
    lo: "\<forall>p \<in> set pre. score (snd p) < score pats"
    unfolding score_def by blast
  have "pre = []"
  proof (rule ccontr)
    assume "pre \<noteq> []"
    then obtain p where p: "p \<in> set pre" by (cases pre) auto
    have "(classify_semantic_type c msgs, pats) \<in> set default_semantic_patterns"
      using d assms(2) by (metis in_set_conv_decomp)
    then have "score pats = 0" using assms(3) unfolding score_def by fastforce
    with lo p show False by fastforce
  qed
  with d assms(2) have "default_semantic_patterns = (classify_semantic_type c msgs, pats) # post"
    by simp
  then show ?thesis by (simp add: default_semantic_patterns_def)
qed

text \<open>
  Claim C4, as the code has it. With the default patterns, the classification of an empty
  message list is \<open>task\<close>; the classification of a non-empty list is a declared category
  whose pattern count over the lower-cased, space-joined text is maximal, every category
  declared before it having a strictly smaller count (ties go to the earlier declaration).
  When no pattern of any category matches, all counts tie at 0 and the result is the first
  declared category, \<open>question\<close>.
\<close>

theorem classify_semantic_type_default:
  "semantic_patterns c = default_semantic_patterns \<Longrightarrow>
     classify_semantic_type c [] = ''task''
   \<and> (msgs \<noteq> [] \<longrightarrow>
        (\<exists>pre pats post.
            default_semantic_patterns = pre @ (classify_semantic_type c msgs, pats) # post
          \<and> (\<forall>p \<in> set pre. pattern_score (lower (join '' '' (map content_str msgs))) (snd p)
                              < pattern_score (lower (join '' '' (map content_str msgs))) pats)
          \<and> (\<forall>p \<in> set post. pattern_score (lower (join '' '' (map content_str msgs))) (snd p)
                              \<le> pattern_score (lower (join '' '' (map content_str msgs))) pats)))
   \<and> (msgs \<noteq> [] \<and>
        (\<forall>p \<in> set default_semantic_patterns.
           pattern_score (lower (join '' '' (map content_str msgs))) (snd p) = 0) \<longrightarrow>
        classify_semantic_type c msgs = ''question'')"
proof -
  assume D: "semantic_patterns c = default_semantic_patterns"
  have e: "classify_semantic_type c [] = ''task''"
    by (simp add: classify_semantic_type_def)
  have ne: "semantic_patterns c \<noteq> []"
    using D by (simp add: default_semantic_patterns_def)
  have m: "msgs \<noteq> [] \<longrightarrow>
        (\<exists>pre pats post.
            default_semantic_patterns = pre @ (classify_semantic_type c msgs, pats) # post
          \<and> (\<forall>p \<in> set pre. pattern_score (lower (join '' '' (map content_str msgs))) (snd p)
                              < pattern_score (lower (join '' '' (map content_str msgs))) pats)
          \<and> (\<forall>p \<in> set post. pattern_score (lower (join '' '' (map content_str msgs))) (snd p)
                              \<le> pattern_score (lower (join '' '' (map content_str msgs))) pats))"
    using classify_first_maximal [of msgs c, OF _ ne] unfolding D by (rule impI)
  have z: "msgs \<noteq> [] \<and>
        (\<forall>p \<in> set default_semantic_patterns.
           pattern_score (lower (join '' '' (map content_str msgs))) (snd p) = 0) \<longrightarrow>
        classify_semantic_type c msgs = ''question''"
    using classify_default_no_match [of msgs c] D by (intro impI) (elim conjE)
  from e m z show ?thesis by (intro conjI)
qed

theorem classify_semantic_type_default_witness:
  "semantic_patterns (InteractionChunker_init 3 10 None) = default_semantic_patterns
   \<and> classify_semantic_type (InteractionChunker_init 3 10 None) [] = ''task''
   \<and> classify_semantic_type (InteractionChunker_init 3 10 None)
       [\<lparr>msg_role = Some ''user'', msg_content = Some ''xyz'', msg_timestamp = None\<rparr>]
     = ''question''"
proof -
  have h: "semantic_patterns (InteractionChunker_init 3 10 None) = default_semantic_patterns"
    by (simp add: InteractionChunker_init_def)
  have z: "[\<lparr>msg_role = Some ''user'', msg_content = Some ''xyz'', msg_timestamp = None\<rparr>] \<noteq> []
     \<and> (\<forall>p \<in> set default_semantic_patterns.
           pattern_score (lower (join '' '' (map content_str
             [\<lparr>msg_role = Some ''user'', msg_content = Some ''xyz'', msg_timestamp = None\<rparr>])))
             (snd p) = 0)"
    by code_simp
  note t = classify_semantic_type_default [OF h,
      of "[\<lparr>msg_role = Some ''user'', msg_content = Some ''xyz'', msg_timestamp = None\<rparr>]"]
  from t have a: "classify_semantic_type (InteractionChunker_init 3 10 None) [] = ''task''"
    by (rule conjunct1)
  from t [THEN conjunct2, THEN conjunct2, THEN mp, OF z]
  have b: "classify_semantic_type (InteractionChunker_init 3 10 None)
       [\<lparr>msg_role = Some ''user'', msg_content = Some ''xyz'', msg_timestamp = None\<rparr>]
     = ''question''" .
  from h a b show ?thesis by (intro conjI)
qed

text \<open>
  The claim C4 as the spec states it gives \<open>task\<close> when no pattern matches: the message
  \<open>xyz\<close> matches no pattern and is classified \<open>question\<close>.
\<close>

theorem classify_no_match_counterexample:
  "pattern_score (lower (join '' '' (map content_str
       [\<lparr>msg_role = Some ''user'', msg_content = Some ''xyz'', msg_timestamp = None\<rparr>])))
     (concat (map snd default_semantic_patterns)) = 0
   \<and> classify_semantic_type (InteractionChunker_init 3 10 None)
       [\<lparr>msg_role = Some ''user'', msg_content = Some ''xyz'', msg_timestamp = None\<rparr>]
     = ''question''
   \<and> ''question'' \<noteq> ''task''"
  by code_simp

section \<open>The observer's fallback extraction\<close>

lemma simple_extraction_single: "simple_extraction now [msg] = extract_message now msg"
  by simp

text \<open>
  Claim C8. In the fallback extraction every message contributes its own observations, in
  order, and at most one; a message whose role is not \<open>user\<close> contributes none. A user
  message whose content contains \<open>my kids\<close> (or, lower-cased, any family keyword)
  contributes exactly one RED observation that flags a family mention; a user message that
  matches a work keyword and no family keyword contributes exactly one YELLOW observation;
  a user message that matches no keyword contributes none. The observation carries the
  message's own timestamp, and the clock reading when the message has none.
\<close>

theorem simple_extraction_fallback:
  "simple_extraction now (pre @ msg # post) =
     simple_extraction now pre @ simple_extraction now [msg] @ simple_extraction now post
   \<and> length (simple_extraction now [msg]) \<le> 1
   \<and> (msg_role msg \<noteq> Some ''user'' \<longrightarrow> simple_extraction now [msg] = [])
   \<and> (msg_role msg = Some ''user''
        \<and> py_in ''my kids'' (case msg_content msg of None \<Rightarrow> [] | Some s \<Rightarrow> s) \<longrightarrow>
      simple_extraction now [msg] =
        [\<lparr>timestamp = (case msg_timestamp msg of None \<Rightarrow> now | Some t \<Rightarrow> t),
          priority = RED, content = ''User mentioned family (children)''\<rparr>])
   \<and> (msg_role msg = Some ''user''
        \<and> (py_in ''kids'' (lower (case msg_content msg of None \<Rightarrow> [] | Some s \<Rightarrow> s))
             \<or> py_in ''children'' (lower (case msg_content msg of None \<Rightarrow> [] | Some s \<Rightarrow> s)))
        \<longrightarrow>
      simple_extraction now [msg] =
        [\<lparr>timestamp = (case msg_timestamp msg of None \<Rightarrow> now | Some t \<Rightarrow> t),
          priority = RED, content = ''User mentioned family (children)''\<rparr>])
   \<and> (msg_role msg = Some ''user''
        \<and> (py_in ''work'' (lower (case msg_content msg of None \<Rightarrow> [] | Some s \<Rightarrow> s))
             \<or> py_in ''job'' (lower (case msg_content msg of None \<Rightarrow> [] | Some s \<Rightarrow> s)))
        \<and> \<not> py_in ''kids'' (lower (case msg_content msg of None \<Rightarrow> [] | Some s \<Rightarrow> s))
        \<and> \<not> py_in ''children'' (lower (case msg_content msg of None \<Rightarrow> [] | Some s \<Rightarrow> s))
        \<longrightarrow>
      simple_extraction now [msg] =
        [\<lparr>timestamp = (case msg_timestamp msg of None \<Rightarrow> now | Some t \<Rightarrow> t),
          priority = YELLOW, content = ''User discussed work situation''\<rparr>])
   \<and> (msg_role msg = Some ''user''
        \<and> \<not> py_in ''kids'' (lower (case msg_content msg of None \<Rightarrow> [] | Some s \<Rightarrow> s))
        \<and> \<not> py_in ''children'' (lower (case msg_content msg of None \<Rightarrow> [] | Some s \<Rightarrow> s))
        \<and> \<not> py_in ''work'' (lower (case msg_content msg of None \<Rightarrow> [] | Some s \<Rightarrow> s))
        \<and> \<not> py_in ''job'' (lower (case msg_content msg of None \<Rightarrow> [] | Some s \<Rightarrow> s))
        \<longrightarrow>
      simple_extraction now [msg] = [])
   \<and> extract_observations now msgs existing = (simple_extraction now msgs, [], [])"
proof -
  define body where "body = (case msg_content msg of None \<Rightarrow> [] | Some s \<Rightarrow> s)"
  define ts where "ts = (case msg_timestamp msg of None \<Rightarrow> now | Some t \<Rightarrow> t)"
  have split: "simple_extraction now (pre @ msg # post) =
     simple_extraction now pre @ simple_extraction now [msg] @ simple_extraction now post"
    using simple_extraction_append [of now pre "msg # post"] by simp
  have one: "length (simple_extraction now [msg]) \<le> 1"
    using length_extract_message [of now msg] by simp
  have other: "msg_role msg \<noteq> Some ''user'' \<longrightarrow> simple_extraction now [msg] = []"
    by (simp add: extract_message_def)
  have family: "msg_role msg = Some ''user''
        \<and> (py_in ''kids'' (lower body) \<or> py_in ''children'' (lower body)) \<longrightarrow>
      simple_extraction now [msg] =
        [\<lparr>timestamp = ts, priority = RED, content = ''User mentioned family (children)''\<rparr>]"
    by (auto simp add: extract_message_def Let_def body_def ts_def)
  have kids: "msg_role msg = Some ''user'' \<and> py_in ''my kids'' body \<longrightarrow>
      simple_extraction now [msg] =
        [\<lparr>timestamp = ts, priority = RED, content = ''User mentioned family (children)''\<rparr>]"
    using family my_kids_family [of body] by blast
  have work: "msg_role msg = Some ''user''
        \<and> (py_in ''work'' (lower body) \<or> py_in ''job'' (lower body))
        \<and> \<not> py_in ''kids'' (lower body) \<and> \<not> py_in ''children'' (lower body) \<longrightarrow>
      simple_extraction now [msg] =
        [\<lparr>timestamp = ts, priority = YELLOW, content = ''User discussed work situation''\<rparr>]"
    by (auto simp add: extract_message_def Let_def body_def ts_def)
  have none: "msg_role msg = Some ''user''
        \<and> \<not> py_in ''kids'' (lower body) \<and> \<not> py_in ''children'' (lower body)
        \<and> \<not> py_in ''work'' (lower body) \<and> \<not> py_in ''job'' (lower body) \<longrightarrow>
      simple_extraction now [msg] = []"
    by (auto simp add: extract_message_def Let_def body_def ts_def)
  have ex: "extract_observations now msgs existing = (simple_extraction now msgs, [], [])"
    by (simp add: extract_observations_def)
  from split one other kids family work none ex show ?thesis
    unfolding body_def ts_def by (intro conjI)
qed

lemma extraction_example_inputs:
  "msg_role \<lparr>msg_role = Some ''user'', msg_content = Some ''I took my kids to school'',
      msg_timestamp = Some \<lparr>year = 2026, month = 2, day = 7, hour = 8, minute = 15,
                              second = 0\<rparr>\<rparr> = Some ''user''
   \<and> py_in ''my kids''
        (case msg_content \<lparr>msg_role = Some ''user'',
            msg_content = Some ''I took my kids to school'',
            msg_timestamp = Some \<lparr>year = 2026, month = 2, day = 7, hour = 8, minute = 15,
                                    second = 0\<rparr>\<rparr> of None \<Rightarrow> [] | Some s \<Rightarrow> s)"
  "msg_role (user_message ''Work is busy'') = Some ''user''
   \<and> (py_in ''work'' (lower (case msg_content (user_message ''Work is busy'') of
                               None \<Rightarrow> [] | Some s \<Rightarrow> s))
        \<or> py_in ''job'' (lower (case msg_content (user_message ''Work is busy'') of
                                  None \<Rightarrow> [] | Some s \<Rightarrow> s)))
   \<and> \<not> py_in ''kids'' (lower (case msg_content (user_message ''Work is busy'') of
                                  None \<Rightarrow> [] | Some s \<Rightarrow> s))
   \<and> \<not> py_in ''children'' (lower (case msg_content (user_message ''Work is busy'') of
                                      None \<Rightarrow> [] | Some s \<Rightarrow> s))"
  by code_simp+

theorem simple_extraction_fallback_witness:
  "simple_extraction example_now
     [\<lparr>msg_role = Some ''user'', msg_content = Some ''I took my kids to school'',
       msg_timestamp = Some \<lparr>year = 2026, month = 2, day = 7, hour = 8, minute = 15,
                               second = 0\<rparr>\<rparr>]
     = [\<lparr>timestamp = \<lparr>year = 2026, month = 2, day = 7, hour = 8, minute = 15, second = 0\<rparr>,
         priority = RED, content = ''User mentioned family (children)''\<rparr>]
   \<and> simple_extraction example_now [user_message ''Work is busy'']
     = [\<lparr>timestamp = example_now, priority = YELLOW,
         content = ''User discussed work situation''\<rparr>]"
proof -
  note red = simple_extraction_fallback
    [of example_now "[]"
        "\<lparr>msg_role = Some ''user'', msg_content = Some ''I took my kids to school'',
          msg_timestamp = Some \<lparr>year = 2026, month = 2, day = 7, hour = 8, minute = 15,
                                  second = 0\<rparr>\<rparr>" "[]",
      THEN conjunct2, THEN conjunct2, THEN conjunct2, THEN conjunct1, THEN mp,
      OF extraction_example_inputs(1)]
  note yellow = simple_extraction_fallback
    [of example_now "[]" "user_message ''Work is busy''" "[]",
      THEN conjunct2, THEN conjunct2, THEN conjunct2, THEN conjunct2, THEN conjunct2,
      THEN conjunct1, THEN mp, OF extraction_example_inputs(2)]
  have a: "simple_extraction example_now
     [\<lparr>msg_role = Some ''user'', msg_content = Some ''I took my kids to school'',
       msg_timestamp = Some \<lparr>year = 2026, month = 2, day = 7, hour = 8, minute = 15,
                               second = 0\<rparr>\<rparr>]
     = [\<lparr>timestamp = \<lparr>year = 2026, month = 2, day = 7, hour = 8, minute = 15, second = 0\<rparr>,
         priority = RED, content = ''User mentioned family (children)''\<rparr>]"
    using red by simp
  have b: "simple_extraction example_now [user_message ''Work is busy'']
     = [\<lparr>timestamp = example_now, priority = YELLOW,
         content = ''User discussed work situation''\<rparr>]"
    using yellow by (simp add: user_message_def)
  from a b show ?thesis by (intro conjI)
qed

section \<open>The reflector's fallback condensation\<close>

lemma reflect_total:
  "reflect obs =
     Inr (let kept = filter (\<lambda>ob. priority ob = RED \<or> priority ob = YELLOW) obs in
          if kept = [] then []
          else kept @ [\<lparr>timestamp = Observation.timestamp (hd obs), priority = RED,
                        content = ''Memory consolidated: '' @ str_nat (length kept) @
                                  '' key observations preserved''\<rparr>])"
proof (cases obs)
  case Nil
  then show ?thesis by (simp add: reflect_def simple_condensation_def)
next
  case (Cons ob rest)
  then show ?thesis by (simp add: reflect_def simple_condensation_def Let_def)
qed

lemma length_filter_less_if_dropped:
  "x \<in> set xs \<Longrightarrow> \<not> P x \<Longrightarrow> length (filter P xs) < length xs"
  by (induction xs) (auto simp: less_Suc_eq_le)

text \<open>
  Claim C7. The fallback \<open>reflect\<close> never fails and returns the RED and YELLOW observations
  of the input in input order, followed by one synthesized RED observation that states how
  many were kept when at least one was kept, and the empty list otherwise. So no GREEN
  observation is in the output, every RED observation of the input is in the output, and
  the output is no longer than the input when the input has a GREEN observation.
\<close>

theorem reflect_fallback:
  "\<exists>r. reflect obs = Inr r
     \<and> r = (let kept = filter (\<lambda>ob. priority ob = RED \<or> priority ob = YELLOW) obs in
            if kept = [] then []
            else kept @ [\<lparr>timestamp = Observation.timestamp (hd obs), priority = RED,
                          content = ''Memory consolidated: '' @ str_nat (length kept) @
                                    '' key observations preserved''\<rparr>])
     \<and> (\<forall>ob \<in> set r. priority ob \<noteq> GREEN)
     \<and> (\<forall>ob \<in> set obs. priority ob = RED \<longrightarrow> ob \<in> set r)
     \<and> ((\<exists>ob \<in> set obs. priority ob = GREEN) \<longrightarrow> length r \<le> length obs)"
proof -
  let ?kept = "filter (\<lambda>ob. priority ob = RED \<or> priority ob = YELLOW) obs"
  let ?r = "if ?kept = [] then []
            else ?kept @ [\<lparr>timestamp = Observation.timestamp (hd obs), priority = RED,
                          content = ''Memory consolidated: '' @ str_nat (length ?kept) @
                                    '' key observations preserved''\<rparr>]"
  have r: "reflect obs = Inr ?r"
    by (simp add: reflect_total Let_def)
  have no_green: "\<forall>ob \<in> set ?r. priority ob \<noteq> GREEN"
    by auto
  have red_kept: "\<forall>ob \<in> set obs. priority ob = RED \<longrightarrow> ob \<in> set ?r"
    by (auto simp: filter_empty_conv)
  have shorter: "(\<exists>ob \<in> set obs. priority ob = GREEN) \<longrightarrow> length ?r \<le> length obs"
  proof
    assume "\<exists>ob \<in> set obs. priority ob = GREEN"
    then obtain g where "g \<in> set obs" "priority g = GREEN" by blast
    then have "length ?kept < length obs"
      using length_filter_less_if_dropped [of g obs "\<lambda>ob. priority ob = RED \<or> priority ob = YELLOW"]
      by simp
    then show "length ?r \<le> length obs" by simp
  qed
  from r no_green red_kept shorter show ?thesis
    by (simp only: Let_def) blast
qed

theorem reflect_fallback_witness:
  "reflect [\<lparr>timestamp = \<lparr>year = 2026, month = 3, day = 1, hour = 9, minute = 30, second = 0\<rparr>,
             priority = RED, content = ''a''\<rparr>,
            \<lparr>timestamp = \<lparr>year = 2026, month = 3, day = 2, hour = 9, minute = 30, second = 0\<rparr>,
             priority = GREEN, content = ''b''\<rparr>,
            \<lparr>timestamp = \<lparr>year = 2026, month = 3, day = 3, hour = 9, minute = 30, second = 0\<rparr>,
             priority = YELLOW, content = ''c''\<rparr>]
   = Inr [\<lparr>timestamp = \<lparr>year = 2026, month = 3, day = 1, hour = 9, minute = 30, second = 0\<rparr>,
           priority = RED, content = ''a''\<rparr>,
          \<lparr>timestamp = \<lparr>year = 2026, month = 3, day = 3, hour = 9, minute = 30, second = 0\<rparr>,
           priority = YELLOW, content = ''c''\<rparr>,
          \<lparr>timestamp = \<lparr>year = 2026, month = 3, day = 1, hour = 9, minute = 30, second = 0\<rparr>,
           priority = RED, content = ''Memory consolidated: 2 key observations preserved''\<rparr>]"
  using reflect_fallback
    [of "[\<lparr>timestamp = \<lparr>year = 2026, month = 3, day = 1, hour = 9, minute = 30, second = 0\<rparr>,
            priority = RED, content = ''a''\<rparr>,
          \<lparr>timestamp = \<lparr>year = 2026, month = 3, day = 2, hour = 9, minute = 30, second = 0\<rparr>,
            priority = GREEN, content = ''b''\<rparr>,
          \<lparr>timestamp = \<lparr>year = 2026, month = 3, day = 3, hour = 9, minute = 30, second = 0\<rparr>,
            priority = YELLOW, content = ''c''\<rparr>]"]
  by (simp add: str_nat.simps digit_char_def)

section \<open>The controller\<close>

lemma process_messages_self: "snd (process_messages om now thread_id msgs) = om"
  by (simp add: process_messages_def Let_def case_prod_beta)

lemma after_calls_same: "after_calls om calls = om"
  by (induction om calls rule: after_calls.induct) (simp_all add: process_messages_self)

text \<open>
  Claim C9, as the code has it. No thread id has a record, and the reads do not fail:
  \<open>get_context\<close> returns the sentinel, \<open>force_reflection\<close> returns its "nothing to
  reflect" text and never fails, and \<open>get_stats\<close> returns the dict with the single key
  \<open>total_observations\<close>, at 0; the dict has no key \<open>has_current_task\<close>.
\<close>

theorem reads_without_record:
  "get_observation_record om thread_id = None
   \<and> get_context om thread_id = ''No observations yet.''
   \<and> get_stats om thread_id = [(''total_observations'', IntV 0)]
   \<and> map_of (get_stats om thread_id) ''has_current_task'' = None
   \<and> force_reflection om thread_id = Inr ''No observations to reflect.''"
  by (simp add: get_observation_record_def get_context_def get_stats_def force_reflection_def)

theorem reads_without_record_witness:
  "get_context \<lparr>config = \<lparr>observation_threshold = 30000, reflection_threshold = 40000\<rparr>,
                count_observations = int \<circ> length\<rparr> ''thread-1'' = ''No observations yet.''
   \<and> force_reflection \<lparr>config = \<lparr>observation_threshold = 30000, reflection_threshold = 40000\<rparr>,
                count_observations = int \<circ> length\<rparr> ''thread-1''
       = Inr ''No observations to reflect.''"
  using reads_without_record
    [of "\<lparr>config = \<lparr>observation_threshold = 30000, reflection_threshold = 40000\<rparr>,
          count_observations = int \<circ> length\<rparr>" "''thread-1''"]
  by simp

text \<open>
  The claim C9 as the spec states it asks for \<open>has_current_task = false\<close> in the stats of
  a thread without a record: the dict that is returned has no such key.
\<close>

theorem get_stats_has_current_task_counterexample:
  "get_observation_record
     \<lparr>config = \<lparr>observation_threshold = 30000, reflection_threshold = 40000\<rparr>,
      count_observations = int \<circ> length\<rparr> ''thread-1'' = None
   \<and> map_of (get_stats
        \<lparr>config = \<lparr>observation_threshold = 30000, reflection_threshold = 40000\<rparr>,
         count_observations = int \<circ> length\<rparr> ''thread-1'') ''has_current_task''
       \<noteq> Some (BoolV False)"
  by (simp add: get_observation_record_def get_stats_def)

text \<open>
  Claim C10. Whatever \<open>process_messages\<close> calls came before, no thread id has a record,
  \<open>get_context\<close> returns the sentinel and \<open>get_stats\<close> the dict with
  \<open>total_observations\<close> at 0; a \<open>process_messages\<close> call returns what it returns on a
  fresh controller, leaves the controller as it was, and its record holds the observations
  extracted from the messages of that call alone (condensed by the reflector when their
  count is over the threshold), with no current task and no suggested response.
\<close>

theorem no_state_persists:
  "get_observation_record (after_calls om calls) thread_id = None
   \<and> get_context (after_calls om calls) thread_id = ''No observations yet.''
   \<and> get_stats (after_calls om calls) thread_id = [(''total_observations'', IntV 0)]
   \<and> process_messages (after_calls om calls) now thread_id msgs =
       process_messages om now thread_id msgs
   \<and> snd (process_messages om now thread_id msgs) = om
   \<and> (\<exists>r. fst (process_messages om now thread_id msgs) = Inr r
          \<and> current_task r = None \<and> suggested_response r = None
          \<and> (if count_observations om (simple_extraction now msgs)
                  > reflection_threshold (config om)
              then reflect (simple_extraction now msgs) = Inr (observations r)
              else observations r = simple_extraction now msgs))"
proof -
  have same: "after_calls om calls = om" by (rule after_calls_same)
  have reads: "get_observation_record om thread_id = None
     \<and> get_context om thread_id = ''No observations yet.''
     \<and> get_stats om thread_id = [(''total_observations'', IntV 0)]"
    by (simp add: get_observation_record_def get_context_def get_stats_def)
  have unchanged: "snd (process_messages om now thread_id msgs) = om"
    by (rule process_messages_self)
  obtain kept where kept: "reflect (simple_extraction now msgs) = Inr kept"
    using reflect_total by blast
  have fresh: "\<exists>r. fst (process_messages om now thread_id msgs) = Inr r
          \<and> current_task r = None \<and> suggested_response r = None
          \<and> (if count_observations om (simple_extraction now msgs)
                  > reflection_threshold (config om)
              then reflect (simple_extraction now msgs) = Inr (observations r)
              else observations r = simple_extraction now msgs)"
    using kept
    by (simp add: process_messages_def get_observation_record_def extract_observations_def
        format_observations_def py_or_def Let_def)
  from same reads unchanged fresh show ?thesis by simp
qed

lemma process_messages_example:
  "fst (process_messages
     \<lparr>config = \<lparr>observation_threshold = 1, reflection_threshold = 2\<rparr>,
      count_observations = int \<circ> length\<rparr>
     \<lparr>year = 2026, month = 3, day = 2, hour = 0, minute = 0, second = 0\<rparr> ''thread-1''
     [\<lparr>msg_role = Some ''user'', msg_content = Some ''work is busy'', msg_timestamp = None\<rparr>])
   = Inr \<lparr>observations =
            [\<lparr>timestamp = \<lparr>year = 2026, month = 3, day = 2, hour = 0, minute = 0, second = 0\<rparr>,
              priority = YELLOW, content = ''User discussed work situation''\<rparr>],
          current_task = None, suggested_response = None\<rparr>"
  by code_simp

theorem no_state_persists_witness:
  "fst (process_messages
     (after_calls
        \<lparr>config = \<lparr>observation_threshold = 1, reflection_threshold = 2\<rparr>,
         count_observations = int \<circ> length\<rparr>
        [(\<lparr>year = 2026, month = 3, day = 1, hour = 0, minute = 0, second = 0\<rparr>, ''thread-1'',
          [\<lparr>msg_role = Some ''user'', msg_content = Some ''my kids are at school'',
            msg_timestamp = None\<rparr>])])
     \<lparr>year = 2026, month = 3, day = 2, hour = 0, minute = 0, second = 0\<rparr> ''thread-1''
     [\<lparr>msg_role = Some ''user'', msg_content = Some ''work is busy'', msg_timestamp = None\<rparr>])
   = Inr \<lparr>observations =
            [\<lparr>timestamp = \<lparr>year = 2026, month = 3, day = 2, hour = 0, minute = 0, second = 0\<rparr>,
              priority = YELLOW, content = ''User discussed work situation''\<rparr>],
          current_task = None, suggested_response = None\<rparr>"
proof -
  have "process_messages
     (after_calls
        \<lparr>config = \<lparr>observation_threshold = 1, reflection_threshold = 2\<rparr>,
         count_observations = int \<circ> length\<rparr>
        [(\<lparr>year = 2026, month = 3, day = 1, hour = 0, minute = 0, second = 0\<rparr>, ''thread-1'',
          [\<lparr>msg_role = Some ''user'', msg_content = Some ''my kids are at school'',
            msg_timestamp = None\<rparr>])])
     \<lparr>year = 2026, month = 3, day = 2, hour = 0, minute = 0, second = 0\<rparr> ''thread-1''
     [\<lparr>msg_role = Some ''user'', msg_content = Some ''work is busy'', msg_timestamp = None\<rparr>]
   = process_messages
     \<lparr>config = \<lparr>observation_threshold = 1, reflection_threshold = 2\<rparr>,
      count_observations = int \<circ> length\<rparr>
     \<lparr>year = 2026, month = 3, day = 2, hour = 0, minute = 0, second = 0\<rparr> ''thread-1''
     [\<lparr>msg_role = Some ''user'', msg_content = Some ''work is busy'', msg_timestamp = None\<rparr>]"
    using no_state_persists by blast
  then show ?thesis by (simp only: process_messages_example)
qed

section \<open>The chunker\<close>

lemma scan_boundary_bounds:
  assumes "1 \<le> sz" and "sz \<le> b" and "\<forall>j \<in> set js. start + 1 \<le> j \<and> j - start \<le> b"
  shows "1 \<le> scan_boundary c msgs start ct js sz \<and> scan_boundary c msgs start ct js sz \<le> b"
  using assms
proof (induction js arbitrary: sz)
  case Nil
  then show ?case by simp
next
  case (Cons j js)
  have j: "1 \<le> j - start" "j - start \<le> b" using Cons.prems(3) by auto
  have rest: "\<forall>j \<in> set js. start + 1 \<le> j \<and> j - start \<le> b" using Cons.prems(3) by simp
  show ?case
  proof (cases "classify_semantic_type c (py_slice msgs j (j + 1)) \<noteq> ct")
    case True
    show ?thesis
    proof (cases "j - start \<ge> min_chunk_size c")
      case True
      with \<open>classify_semantic_type c (py_slice msgs j (j + 1)) \<noteq> ct\<close> j show ?thesis
        by (simp add: Let_def)
    next
      case False
      with \<open>classify_semantic_type c (py_slice msgs j (j + 1)) \<noteq> ct\<close>
      have "scan_boundary c msgs start ct (j # js) sz = scan_boundary c msgs start ct js (j - start)"
        by (simp add: Let_def)
      with Cons.IH [OF j(1) j(2) rest] show ?thesis by simp
    qed
  next
    case False
    then have "scan_boundary c msgs start ct (j # js) sz = scan_boundary c msgs start ct js sz"
      by (simp add: Let_def)
    with Cons.IH [OF Cons.prems(1) Cons.prems(2) rest] show ?thesis by simp
  qed
qed

lemma determine_chunk_size_spec:
  assumes "0 \<le> i" and "i < int (length msgs)"
    and "1 \<le> min_chunk_size c" and "min_chunk_size c \<le> max_chunk_size c"
  shows "1 \<le> determine_chunk_size c msgs i
       \<and> determine_chunk_size c msgs i \<le> max_chunk_size c
       \<and> (i + determine_chunk_size c msgs i < int (length msgs)
            \<or> i + determine_chunk_size c msgs i = max (int (length msgs)) (i + min_chunk_size c))"
proof -
  define n where "n = int (length msgs)"
  define sz where "sz = min (max_chunk_size c) (max (min_chunk_size c) (n - i))"
  have sz1: "1 \<le> sz" and szm: "sz \<le> max_chunk_size c"
    using assms unfolding sz_def n_def by auto
  show ?thesis
  proof (cases "i + sz < n")
    case True
    define ct where "ct = classify_semantic_type c (py_slice msgs i (i + 1))"
    have d: "determine_chunk_size c msgs i =
        scan_boundary c msgs i ct [i + 1 .. min (i + sz) n - 1] sz"
      using True unfolding determine_chunk_size_def sz_def n_def ct_def by (simp add: Let_def)
    have js: "\<forall>j \<in> set [i + 1 .. min (i + sz) n - 1]. i + 1 \<le> j \<and> j - i \<le> sz"
      by auto
    from scan_boundary_bounds [OF sz1 order_refl js, of c msgs ct]
    have "1 \<le> determine_chunk_size c msgs i" "determine_chunk_size c msgs i \<le> sz"
      unfolding d by simp_all
    with True szm show ?thesis unfolding n_def by simp
  next
    case False
    then have d: "determine_chunk_size c msgs i = sz"
      unfolding determine_chunk_size_def sz_def n_def by (simp add: Let_def)
    have "i + sz = max n (i + min_chunk_size c)"
      using False assms unfolding sz_def n_def by auto
    with sz1 szm show ?thesis unfolding d n_def by simp
  qed
qed


lemma calculate_importance_ok:
  "tot \<noteq> 0 \<Longrightarrow>
   calculate_importance idx tot = Inr (0.5 + real_of_int (tot - idx) / real_of_int tot * 0.5)"
  by (simp add: calculate_importance_def Let_def)

lemma chunk_loop_tiles:
  assumes "1 \<le> min_chunk_size c" and "min_chunk_size c \<le> max_chunk_size c"
  shows "0 \<le> i \<Longrightarrow>
    \<exists>r. chunk_loop c now msgs thread_id i acc = Some (Inr (acc @ r)) \<and> tiles c msgs i r"
proof (induction "nat (int (length msgs) - i)" arbitrary: i acc rule: less_induct)
  case less
  show ?case
  proof (cases "i < int (length msgs)")
    case False
    then have "chunk_loop c now msgs thread_id i acc = Some (Inr (acc @ []))"
      by (subst chunk_loop.simps) simp
    moreover have "tiles c msgs i []" using False by simp
    ultimately show ?thesis by blast
  next
    case True
    define s where "s = determine_chunk_size c msgs i"
    from determine_chunk_size_spec [OF less.prems True assms]
    have s1: "1 \<le> s" and sm: "s \<le> max_chunk_size c"
      and se: "i + s < int (length msgs) \<or> i + s = max (int (length msgs)) (i + min_chunk_size c)"
      unfolding s_def by simp_all
    define ch where "ch =
      \<lparr>InteractionChunk.chunk_id = thread_id @ ''_chunk_'' @ str_nat (length acc),
       start_idx = i, end_idx = i + s,
       messages = py_slice msgs i (i + s),
       semantic_type = classify_semantic_type c (py_slice msgs i (i + s)),
       importance = 0.5 + real_of_int (int (length msgs) - i) / real_of_int (int (length msgs)) * 0.5,
       InteractionChunk.timestamp = now\<rparr>"
    have n0: "int (length msgs) \<noteq> 0" using True less.prems by linarith
    have step: "chunk_loop c now msgs thread_id i acc =
        chunk_loop c now msgs thread_id (i + s) (acc @ [ch])"
      using True calculate_importance_ok [OF n0, of i]
      by (subst chunk_loop.simps) (simp add: Let_def s_def ch_def)
    have "nat (int (length msgs) - (i + s)) < nat (int (length msgs) - i)"
      using True s1 by simp
    moreover have "0 \<le> i + s" using less.prems s1 by simp
    ultimately obtain r where
      r: "chunk_loop c now msgs thread_id (i + s) (acc @ [ch]) = Some (Inr ((acc @ [ch]) @ r))"
      and t: "tiles c msgs (i + s) r"
      using less.hyps [of "i + s" "acc @ [ch]"] by blast
    have "tiles c msgs i (ch # r)"
      using t True less.prems s1 sm se by (simp add: ch_def)
    moreover have "chunk_loop c now msgs thread_id i acc = Some (Inr (acc @ ch # r))"
      using step r by simp
    ultimately show ?thesis by blast
  qed
qed


lemma py_slice_nonneg:
  assumes "0 \<le> a" and "a < int (length xs)" and "a < b"
  shows "py_slice xs a b = take (nat (min b (int (length xs)) - a)) (drop (nat a) xs)"
  using assms by (simp add: py_slice_def Let_def min_def)

lemma py_slice_nonempty:
  assumes "0 \<le> a" and "a < int (length xs)" and "a < b"
  shows "py_slice xs a b \<noteq> []"
  using assms by (simp add: py_slice_nonneg min_def)

lemma py_slice_append_drop:
  assumes "0 \<le> a" and "a < int (length xs)" and "a < b"
  shows "py_slice xs a b @ drop (nat b) xs = drop (nat a) xs"
proof (cases "b \<le> int (length xs)")
  case True
  then have "py_slice xs a b = take (nat (b - a)) (drop (nat a) xs)"
    using assms by (simp add: py_slice_nonneg min_def)
  moreover have "nat b = nat (b - a) + nat a" using assms by simp
  then have "drop (nat b) xs = drop (nat (b - a)) (drop (nat a) xs)"
    by (simp only: drop_drop)
  ultimately show ?thesis by (simp only: append_take_drop_id)
next
  case False
  then have "py_slice xs a b = drop (nat a) xs"
    using assms by (simp add: py_slice_nonneg min_def)
  moreover have "drop (nat b) xs = []" using False by simp
  ultimately show ?thesis by simp
qed

lemma tiles_empty: "tiles c msgs i r \<Longrightarrow> (r = []) = (int (length msgs) \<le> i)"
  by (cases r) auto

lemma tiles_hd: "tiles c msgs i r \<Longrightarrow> r \<noteq> [] \<Longrightarrow> start_idx (hd r) = i"
  by (cases r) auto

lemma tiles_adjacent:
  "tiles c msgs i r \<Longrightarrow> Suc k < length r \<Longrightarrow> end_idx (r ! k) = start_idx (r ! Suc k)"
proof (induction r arbitrary: i k)
  case Nil
  then show ?case by simp
next
  case (Cons ch rest)
  from Cons.prems(1) have t: "tiles c msgs (end_idx ch) rest" by simp
  show ?case
  proof (cases k)
    case 0
    with Cons.prems(2) have "rest \<noteq> []" by auto
    with tiles_hd [OF t] have "start_idx (hd rest) = end_idx ch" by simp
    with 0 \<open>rest \<noteq> []\<close> show ?thesis by (simp add: hd_conv_nth)
  next
    case (Suc k')
    with Cons.prems(2) have "Suc k' < length rest" by simp
    from Cons.IH [OF t this] Suc show ?thesis by simp
  qed
qed

lemma tiles_each:
  "tiles c msgs i r \<Longrightarrow> ch \<in> set r \<Longrightarrow>
     0 \<le> start_idx ch \<and> start_idx ch < int (length msgs) \<and> start_idx ch < end_idx ch
   \<and> end_idx ch - start_idx ch \<le> max_chunk_size c
   \<and> messages ch = py_slice msgs (start_idx ch) (end_idx ch)
   \<and> importance ch = 0.5 + real_of_int (int (length msgs) - start_idx ch)
                            / real_of_int (int (length msgs)) * 0.5"
proof (induction r arbitrary: i)
  case Nil
  then show ?case by simp
next
  case (Cons x rest)
  from Cons.prems(1) have t: "tiles c msgs (end_idx x) rest" by simp
  from Cons.prems(2) consider "ch = x" | "ch \<in> set rest" by auto
  then show ?case
  proof cases
    case 1
    with Cons.prems(1) show ?thesis by simp
  next
    case 2
    from Cons.IH [OF t 2] show ?thesis .
  qed
qed

lemma tiles_last:
  "tiles c msgs i r \<Longrightarrow> r \<noteq> [] \<Longrightarrow>
     end_idx (last r) = max (int (length msgs)) (start_idx (last r) + min_chunk_size c)"
proof (induction r arbitrary: i)
  case Nil
  then show ?case by simp
next
  case (Cons x rest)
  from Cons.prems(1) have t: "tiles c msgs (end_idx x) rest" by simp
  show ?case
  proof (cases rest)
    case Nil
    with t have "int (length msgs) \<le> end_idx x" by simp
    with Cons.prems(1) Nil show ?thesis by auto
  next
    case (Cons y ys)
    then have "rest \<noteq> []" by simp
    from Cons.IH [OF t this] \<open>rest \<noteq> []\<close> show ?thesis by simp
  qed
qed

lemma tiles_concat:
  "tiles c msgs i r \<Longrightarrow> 0 \<le> i \<Longrightarrow> concat (map messages r) = drop (nat i) msgs"
proof (induction r arbitrary: i)
  case Nil
  then show ?case by simp
next
  case (Cons x rest)
  from Cons.prems(1) have t: "tiles c msgs (end_idx x) rest"
    and m: "messages x = py_slice msgs i (end_idx x)"
    and b: "i < int (length msgs)" "i < end_idx x" by simp_all
  have "0 \<le> end_idx x" using b Cons.prems(2) by simp
  from Cons.IH [OF t this] have "concat (map messages rest) = drop (nat (end_idx x)) msgs" .
  then have "concat (map messages (x # rest)) = py_slice msgs i (end_idx x) @ drop (nat (end_idx x)) msgs"
    using m by simp
  also have "\<dots> = drop (nat i) msgs"
    using py_slice_append_drop [OF Cons.prems(2) b] .
  finally show ?case .
qed

text \<open>
  Claim C1, as the code has it. For a configuration with
  \<open>1 \<le> min_chunk_size \<le> max_chunk_size\<close> the loop of \<^verbatim>\<open>chunk\<close> returns; the chunk list is
  empty exactly for the empty sequence; the first chunk starts at 0, each chunk ends where
  the next one starts, each chunk is not empty and holds the slice of its range, and the
  chunks' messages, one after the other, are the sequence. The end index of the last chunk
  is the length of the sequence when at least \<^verbatim>\<open>min_chunk_size\<close> messages were left at its
  start, and its start plus \<^verbatim>\<open>min_chunk_size\<close>, beyond the sequence, otherwise.
\<close>

theorem chunk_partition:
  "1 \<le> min_chunk_size c \<Longrightarrow> min_chunk_size c \<le> max_chunk_size c \<Longrightarrow>
   \<exists>chunks. chunk c now msgs thread_id = Some (Inr chunks)
     \<and> (chunks = []) = (msgs = [])
     \<and> (chunks \<noteq> [] \<longrightarrow> start_idx (hd chunks) = 0)
     \<and> (\<forall>k. Suc k < length chunks \<longrightarrow> end_idx (chunks ! k) = start_idx (chunks ! Suc k))
     \<and> (\<forall>ch \<in> set chunks. start_idx ch < end_idx ch \<and> messages ch \<noteq> []
            \<and> messages ch = py_slice msgs (start_idx ch) (end_idx ch))
     \<and> concat (map messages chunks) = msgs
     \<and> (chunks \<noteq> [] \<longrightarrow>
          end_idx (last chunks) =
            max (int (length msgs)) (start_idx (last chunks) + min_chunk_size c))"
proof -
  assume a: "1 \<le> min_chunk_size c" "min_chunk_size c \<le> max_chunk_size c"
  from chunk_loop_tiles [OF a, of 0 now msgs thread_id "[]"] obtain r where
    r: "chunk c now msgs thread_id = Some (Inr r)" and t: "tiles c msgs 0 r"
    unfolding chunk_def by auto
  have e: "(r = []) = (msgs = [])" using tiles_empty [OF t] by simp
  have h: "r \<noteq> [] \<longrightarrow> start_idx (hd r) = 0" using tiles_hd [OF t] by simp
  have adj: "\<forall>k. Suc k < length r \<longrightarrow> end_idx (r ! k) = start_idx (r ! Suc k)"
    using tiles_adjacent [OF t] by simp
  have each: "\<forall>ch \<in> set r. start_idx ch < end_idx ch \<and> messages ch \<noteq> []
            \<and> messages ch = py_slice msgs (start_idx ch) (end_idx ch)"
  proof
    fix ch assume "ch \<in> set r"
    from tiles_each [OF t this] show "start_idx ch < end_idx ch \<and> messages ch \<noteq> []
            \<and> messages ch = py_slice msgs (start_idx ch) (end_idx ch)"
      using py_slice_nonempty [of "start_idx ch" msgs "end_idx ch"] by simp
  qed
  have cc: "concat (map messages r) = msgs" using tiles_concat [OF t] by simp
  have l: "r \<noteq> [] \<longrightarrow>
          end_idx (last r) = max (int (length msgs)) (start_idx (last r) + min_chunk_size c)"
    using tiles_last [OF t] by simp
  from r e h adj each cc l show ?thesis by (intro exI conjI)
qed

theorem chunk_partition_witness:
  "1 \<le> min_chunk_size (InteractionChunker_init 3 10 None)
   \<and> min_chunk_size (InteractionChunker_init 3 10 None)
       \<le> max_chunk_size (InteractionChunker_init 3 10 None)
   \<and> (\<exists>chunks.
         chunk (InteractionChunker_init 3 10 None) example_now
           [user_message ''Can you help me?'', user_message ''Sure'',
            user_message ''Write a sort'', user_message ''Here it is''] ''t''
           = Some (Inr chunks)
       \<and> concat (map messages chunks) =
           [user_message ''Can you help me?'', user_message ''Sure'',
            user_message ''Write a sort'', user_message ''Here it is''])"
proof -
  have h1: "1 \<le> min_chunk_size (InteractionChunker_init 3 10 None)"
    by (simp add: InteractionChunker_init_def)
  have h2: "min_chunk_size (InteractionChunker_init 3 10 None)
       \<le> max_chunk_size (InteractionChunker_init 3 10 None)"
    by (simp add: InteractionChunker_init_def)
  from chunk_partition [OF h1 h2, of example_now
      "[user_message ''Can you help me?'', user_message ''Sure'',
        user_message ''Write a sort'', user_message ''Here it is'']" "''t''"]
  have "\<exists>chunks.
         chunk (InteractionChunker_init 3 10 None) example_now
           [user_message ''Can you help me?'', user_message ''Sure'',
            user_message ''Write a sort'', user_message ''Here it is''] ''t''
           = Some (Inr chunks)
       \<and> concat (map messages chunks) =
           [user_message ''Can you help me?'', user_message ''Sure'',
            user_message ''Write a sort'', user_message ''Here it is'']"
    by (elim exE conjE) (intro exI conjI)
  with h1 h2 show ?thesis by (intro conjI)
qed

text \<open>
  The claim C1 as the spec states it has the last chunk end at the length of the sequence:
  with the default sizes 3 and 10, the single chunk of a one-message sequence ends at 3.
\<close>

theorem chunk_last_end_counterexample:
  "1 \<le> min_chunk_size (InteractionChunker_init 3 10 None)
   \<and> min_chunk_size (InteractionChunker_init 3 10 None)
       \<le> max_chunk_size (InteractionChunker_init 3 10 None)
   \<and> chunk (InteractionChunker_init 3 10 None) example_now [user_message ''xyz''] ''t''
       = Some (Inr [\<lparr>InteractionChunk.chunk_id = ''t_chunk_0'', start_idx = 0, end_idx = 3,
            messages = [user_message ''xyz''], semantic_type = ''question'', importance = 1,
            InteractionChunk.timestamp = example_now\<rparr>])
   \<and> (3 :: int) \<noteq> int (length [user_message ''xyz''])"
  by code_simp

text \<open>
  Claim C2 says that a chunk with a smaller start index has an importance that is not
  greater. The code computes \<^verbatim>\<open>recency = (total - idx) / total\<close>, which falls with the index:
  for eleven equal messages and the default sizes, the chunk at 0 has importance 1 and the
  chunk at 10 has importance 6/11.
\<close>

theorem importance_decreases_with_start:
  "chunk (InteractionChunker_init 3 10 None) example_now
     (replicate 11 (user_message ''xyz'')) ''t''
     = Some (Inr [\<lparr>InteractionChunk.chunk_id = ''t_chunk_0'', start_idx = 0, end_idx = 10,
            messages = replicate 10 (user_message ''xyz''), semantic_type = ''question'',
            importance = 1, InteractionChunk.timestamp = example_now\<rparr>,
          \<lparr>InteractionChunk.chunk_id = ''t_chunk_1'', start_idx = 10, end_idx = 13,
            messages = [user_message ''xyz''], semantic_type = ''question'',
            importance = 6 / 11, InteractionChunk.timestamp = example_now\<rparr>])
   \<and> (6 / 11 :: real) < 1"
  by code_simp

text \<open>
  Claim C3 says that every chunk but the last has at least \<^verbatim>\<open>min_chunk_size\<close> messages. The
  scan assigns \<^verbatim>\<open>size = j - start_idx\<close> before it tests the minimum, and keeps that value when
  no later shift ends the loop: for eleven messages of which only the second is of another
  type, and the default sizes, the first of the two chunks has one message.
\<close>

theorem snapped_chunk_below_min:
  "chunk (InteractionChunker_init 3 10 None) example_now
     (user_message ''xyz'' # user_message ''create'' # replicate 9 (user_message ''xyz'')) ''t''
     = Some (Inr [\<lparr>InteractionChunk.chunk_id = ''t_chunk_0'', start_idx = 0, end_idx = 1,
            messages = [user_message ''xyz''], semantic_type = ''question'',
            importance = 1, InteractionChunk.timestamp = example_now\<rparr>,
          \<lparr>InteractionChunk.chunk_id = ''t_chunk_1'', start_idx = 1, end_idx = 11,
            messages = user_message ''create'' # replicate 9 (user_message ''xyz''),
            semantic_type = ''task'',
            importance = 21 / 22, InteractionChunk.timestamp = example_now\<rparr>])
   \<and> (1 :: int) - 0 < min_chunk_size (InteractionChunker_init 3 10 None)"
  by code_simp

section \<open>The chunk evaluator\<close>

lemma overlap_bounds:
  fixes A B :: "'a set"
  assumes "finite A"
  shows "0 \<le> real (card (A \<inter> B)) / real (max (card A) 1) * 0.9"
    and "real (card (A \<inter> B)) / real (max (card A) 1) * 0.9 \<le> 1"
proof -
  show "0 \<le> real (card (A \<inter> B)) / real (max (card A) 1) * 0.9" by simp
  have "card (A \<inter> B) \<le> card A" using assms by (simp add: card_mono)
  then have "card (A \<inter> B) \<le> max (card A) 1" by simp
  then have "real (card (A \<inter> B)) \<le> real (max (card A) 1)" by (simp only: of_nat_le_iff)
  moreover have "0 < real (max (card A) 1)" by simp
  ultimately have "real (card (A \<inter> B)) / real (max (card A) 1) \<le> 1"
    by (simp only: divide_le_eq_1_pos)
  then show "real (card (A \<inter> B)) / real (max (card A) 1) * 0.9 \<le> 1" by simp
qed

text \<open>
  Claim C5, as the code has it. With a memory attached, the reconstruction quality of a
  chunk is 1 when the chunk text occurs verbatim in the rendered context, and otherwise
  0.9 times the share of the chunk's words that are context words, the number of chunk
  words being taken as at least 1. The empty text occurs in every context, so a chunk whose
  text is empty scores 1; a text without any word that does not occur in the context scores
  0. The quality lies between 0 and 1.
\<close>

theorem reconstruction_quality_attached:
  "paom ev = Some get_ctx \<Longrightarrow>
     (py_in (chunk_text ch) (get_ctx thread_id) \<longrightarrow>
        measure_reconstruction_quality ev ch thread_id = 1)
   \<and> (\<not> py_in (chunk_text ch) (get_ctx thread_id) \<longrightarrow>
        measure_reconstruction_quality ev ch thread_id =
          0.9 * (real (card (set (split (lower (chunk_text ch)))
                             \<inter> set (split (lower (get_ctx thread_id)))))
                 / real (max (card (set (split (lower (chunk_text ch))))) 1)))
   \<and> (chunk_text ch = [] \<longrightarrow> measure_reconstruction_quality ev ch thread_id = 1)
   \<and> (\<not> py_in (chunk_text ch) (get_ctx thread_id) \<and> split (lower (chunk_text ch)) = [] \<longrightarrow>
        measure_reconstruction_quality ev ch thread_id = 0)
   \<and> 0 \<le> measure_reconstruction_quality ev ch thread_id
   \<and> measure_reconstruction_quality ev ch thread_id \<le> 1"
proof -
  assume P: "paom ev = Some get_ctx"
  let ?A = "set (split (lower (chunk_text ch)))"
  let ?B = "set (split (lower (get_ctx thread_id)))"
  have inside: "py_in (chunk_text ch) (get_ctx thread_id) \<longrightarrow>
        measure_reconstruction_quality ev ch thread_id = 1"
    using P by (simp add: measure_reconstruction_quality_def)
  have outside: "\<not> py_in (chunk_text ch) (get_ctx thread_id) \<longrightarrow>
        measure_reconstruction_quality ev ch thread_id =
          0.9 * (real (card (?A \<inter> ?B)) / real (max (card ?A) 1))"
    using P by (simp add: measure_reconstruction_quality_def Let_def)
  have empty: "chunk_text ch = [] \<longrightarrow> measure_reconstruction_quality ev ch thread_id = 1"
    using inside py_in_empty [of "get_ctx thread_id"] by auto
  have nowords: "\<not> py_in (chunk_text ch) (get_ctx thread_id) \<and> split (lower (chunk_text ch)) = []
       \<longrightarrow> measure_reconstruction_quality ev ch thread_id = 0"
    using outside by auto
  have bounds: "0 \<le> measure_reconstruction_quality ev ch thread_id
     \<and> measure_reconstruction_quality ev ch thread_id \<le> 1"
  proof (cases "py_in (chunk_text ch) (get_ctx thread_id)")
    case True
    with inside show ?thesis by simp
  next
    case False
    with outside have "measure_reconstruction_quality ev ch thread_id =
       real (card (?A \<inter> ?B)) / real (max (card ?A) 1) * 0.9" by simp
    then show ?thesis
      using overlap_bounds [of ?A ?B] by simp
  qed
  from inside outside empty nowords bounds show ?thesis by (intro conjI) simp_all
qed

lemma reconstruction_example_overlap:
  "\<not> py_in (chunk_text
       \<lparr>InteractionChunk.chunk_id = ''t_chunk_0'', start_idx = 0, end_idx = 3,
        messages = [user_message ''no observations here''],
        semantic_type = ''correction'', importance = 1,
        InteractionChunk.timestamp = example_now\<rparr>) (get_context example_memory ''t'')
   \<and> 0.9 * (real (card (set (split (lower (chunk_text
       \<lparr>InteractionChunk.chunk_id = ''t_chunk_0'', start_idx = 0, end_idx = 3,
        messages = [user_message ''no observations here''],
        semantic_type = ''correction'', importance = 1,
        InteractionChunk.timestamp = example_now\<rparr>)))
      \<inter> set (split (lower (get_context example_memory ''t'')))))
     / real (max (card (set (split (lower (chunk_text
       \<lparr>InteractionChunk.chunk_id = ''t_chunk_0'', start_idx = 0, end_idx = 3,
        messages = [user_message ''no observations here''],
        semantic_type = ''correction'', importance = 1,
        InteractionChunk.timestamp = example_now\<rparr>))))) 1))
   = (3 / 5 :: real)"
  by code_simp

theorem reconstruction_quality_attached_witness:
  "paom example_evaluator = Some (get_context example_memory)
   \<and> \<not> py_in (chunk_text
       \<lparr>InteractionChunk.chunk_id = ''t_chunk_0'', start_idx = 0, end_idx = 3,
        messages = [user_message ''no observations here''],
        semantic_type = ''correction'', importance = 1,
        InteractionChunk.timestamp = example_now\<rparr>) (get_context example_memory ''t'')
   \<and> measure_reconstruction_quality example_evaluator
       \<lparr>InteractionChunk.chunk_id = ''t_chunk_0'', start_idx = 0, end_idx = 3,
        messages = [user_message ''no observations here''],
        semantic_type = ''correction'', importance = 1,
        InteractionChunk.timestamp = example_now\<rparr> ''t'' = 3 / 5"
proof -
  have h: "paom example_evaluator = Some (get_context example_memory)"
    by (simp add: example_evaluator_def)
  note ex = reconstruction_example_overlap
  from reconstruction_quality_attached [OF h, THEN conjunct2, THEN conjunct1, THEN mp,
      OF ex [THEN conjunct1]]
  have "measure_reconstruction_quality example_evaluator
       \<lparr>InteractionChunk.chunk_id = ''t_chunk_0'', start_idx = 0, end_idx = 3,
        messages = [user_message ''no observations here''],
        semantic_type = ''correction'', importance = 1,
        InteractionChunk.timestamp = example_now\<rparr> ''t'' = 3 / 5"
    by (simp only: ex [THEN conjunct2])
  with h ex [THEN conjunct1] show ?thesis by (intro conjI)
qed

text \<open>
  The claim C5 as the spec states it gives 0 to a chunk whose text is empty: the chunk that
  the default chunker makes of one message with the empty content has the empty text and
  scores 1 against the controller's context.
\<close>

theorem reconstruction_empty_text_counterexample:
  "chunk (InteractionChunker_init 3 10 None) example_now [user_message ''''] ''t''
     = Some (Inr [\<lparr>InteractionChunk.chunk_id = ''t_chunk_0'', start_idx = 0, end_idx = 3,
          messages = [user_message ''''], semantic_type = ''question'', importance = 1,
          InteractionChunk.timestamp = example_now\<rparr>])
   \<and> chunk_text \<lparr>InteractionChunk.chunk_id = ''t_chunk_0'', start_idx = 0, end_idx = 3,
          messages = [user_message ''''], semantic_type = ''question'', importance = 1,
          InteractionChunk.timestamp = example_now\<rparr> = []
   \<and> measure_reconstruction_quality example_evaluator
         \<lparr>InteractionChunk.chunk_id = ''t_chunk_0'', start_idx = 0, end_idx = 3,
          messages = [user_message ''''], semantic_type = ''question'', importance = 1,
          InteractionChunk.timestamp = example_now\<rparr> ''t'' = 1"
  by code_simp











end
